theory Spec2Isabelle
  imports Complex_Main "HOL-Library.Word" "HOL-Library.AList"
begin

section \<open>The multi-tier fragment cache of WxeUI (src/cache/fragment\_cache.h, .cc)\<close>

text \<open>
  The three-level cache \<open>FragmentCache\<close> is embedded as state-passing functions over a
  record of its members. What lies outside the repository is a parameter:
  \<^item> zlib (\<open>compress2\<close>, \<open>uncompress\<close>) is the pair \<open>deflate\<close>, \<open>inflate\<close> of an
    environment record;
  \<^item> \<open>std::hash<std::string>\<close> is the field \<open>hasher\<close>;
  \<^item> the disk is a map from file paths to contents, and whether writing a path
    succeeds is the field \<open>write_fault\<close>;
  \<^item> \<open>steady_clock::now()\<close> is an argument \<open>now\<close> of every operation that reads the
    clock (one reading per operation), in ticks of one nanosecond.
  The mutexes are omitted: every operation is modelled run to its end, one at a time.
\<close>

subsection \<open>Data model (fragment\_cache.h)\<close>

type_synonym byte = "8 word"
type_synonym bytes = "byte list"
type_synonym time_point = int

datatype CacheLevel = L1_GPU | L2_RAM | L3_DISK

text \<open>
  \<open>struct CacheEntry\<close>. The field \<open>size\<close> is named \<open>size_e\<close> here. Lengths of buffers
  and their sums are natural numbers: the buffers are all resident in memory, so the
  \<open>size_t\<close> sums of the source do not wrap.
\<close>

record CacheEntry =
  data :: bytes
  size_e :: nat
  last_access :: time_point
  creation_time :: time_point
  access_count :: "32 word"
  compressed :: bool
  level :: CacheLevel
  key :: string

text \<open>
  \<open>struct CacheStats\<close>: \<open>uint64_t\<close> and \<open>size_t\<close> counters (64 bits wide on the 64-bit
  target that the 4 GB default of \<open>max_l3_size\<close> presupposes), which wrap around.
\<close>

record CacheStats =
  hits :: "64 word"
  misses :: "64 word"
  total_size :: "64 word"
  entry_count :: "64 word"
  evictions :: "64 word"




record Config =
  max_l1_size :: nat
  max_l2_size :: nat
  max_l3_size :: nat
  compression_threshold :: nat
  max_age :: int
  max_entries_per_level :: nat
  enable_compression :: bool
  enable_prefetch :: bool
  compression_level :: int
  cache_directory :: string

definition Config_default :: Config where
  "Config_default =
     \<lparr> max_l1_size = 256 * 1024 * 1024,
       max_l2_size = 1024 * 1024 * 1024,
       max_l3_size = 4 * 1024 * 1024 * 1024,
       compression_threshold = 64 * 1024,
       max_age = 3600,
       max_entries_per_level = 10000,
       enable_compression = True,
       enable_prefetch = True,
       compression_level = 6,
       cache_directory = ''cache'' \<rparr>"

subsection \<open>The environment: zlib, std::hash, the disk\<close>

text \<open>
  A file path \<open>cache_directory + "/" + std::to_string(hash) + ".cache"\<close> is kept as the
  pair of the directory and the hash, from which the string is built injectively.
\<close>

type_synonym path = "string \<times> nat"

text \<open>
  What opening and writing a file does. \<open>SaveToFile\<close> reads \<open>file.good()\<close> right after
  \<open>file.write\<close>, while the bytes may still be in the stream's buffer, which is flushed
  only when the stream is destroyed on return:
  \<^item> \<open>OpenFault\<close>: the file cannot be opened and is left as it is;
  \<^item> \<open>WriteFault n\<close>: the write itself fails, the stream is not good, and the first
    \<open>n\<close> bytes have reached the file;
  \<^item> \<open>FlushFault n\<close>: the write into the buffer succeeds and the stream is good when
    it is tested, but only the first \<open>n\<close> bytes reach the file when the buffer is
    flushed.
\<close>

datatype disk_fault = NoFault | OpenFault | WriteFault nat | FlushFault nat

record env =
  deflate :: "int \<Rightarrow> bytes \<Rightarrow> bytes option"
  inflate :: "bytes \<Rightarrow> bytes option"
  hasher :: "string \<Rightarrow> nat"
  write_fault :: "path \<Rightarrow> disk_fault"

text \<open>
  zlib's \<open>uncompress(dest, &destLen, src, srcLen)\<close>: \<open>Z_OK\<close> with the inflated bytes
  when the stream is valid and they fit into \<open>destLen\<close> bytes, an error
  (\<open>Z_BUF_ERROR\<close>, \<open>Z_DATA_ERROR\<close>) otherwise. \<open>None\<close> is every result but \<open>Z_OK\<close>.
\<close>

definition uncompress :: "env \<Rightarrow> nat \<Rightarrow> bytes \<Rightarrow> bytes option" where
  "uncompress E destLen src =
     (case inflate E src of
        None \<Rightarrow> None
      | Some d \<Rightarrow> if length d \<le> destLen then Some d else None)"

text \<open>
  zlib's \<open>compress2\<close> into a buffer of \<open>compressBound\<close> bytes, which is always large
  enough: the result is \<open>Z_OK\<close> exactly when the encoder produces a stream.
\<close>

definition compress2 :: "env \<Rightarrow> int \<Rightarrow> bytes \<Rightarrow> bytes option" where
  "compress2 E lvl src = deflate E lvl src"

subsection \<open>LRUCache: the recency index of one tier\<close>

text \<open>
  The doubly linked list between the sentinels \<open>head\<close> and \<open>tail\<close> is the list of its
  keys, most recently used first; \<open>cache_map\<close> holds one node per key, so a key occurs
  at most once.
\<close>

type_synonym LRUCache = "string list"

definition Access :: "string \<Rightarrow> LRUCache \<Rightarrow> LRUCache" where
  "Access k l = (if k \<in> set l then k # removeAll k l else k # l)"

definition GetLRU :: "LRUCache \<Rightarrow> string" where
  "GetLRU l = (if l = [] then [] else last l)"

definition LRU_Remove :: "string \<Rightarrow> LRUCache \<Rightarrow> LRUCache" where
  "LRU_Remove k l = (if k \<in> set l then removeAll k l else l)"

subsection \<open>FragmentCache: members\<close>

text \<open>
  An \<open>unordered_map\<close> from keys to entries is an association list, updated in place by
  \<open>AList.update\<close> and erased by \<open>AList.delete\<close>; its iteration order is the order of
  the list.
\<close>

type_synonym tier = "(string \<times> CacheEntry) list"

record FragmentCache =
  config :: Config
  l1_cache :: tier
  l2_cache :: tier
  l3_cache :: tier
  l1_lru :: LRUCache
  l2_lru :: LRUCache
  l3_lru :: LRUCache
  stats :: CacheStats
  files :: "path \<Rightarrow> bytes option"

text \<open>The constructor, on a disk \<open>fs\<close>: three empty tiers and zeroed statistics.\<close>

definition FragmentCache_new :: "Config \<Rightarrow> (path \<Rightarrow> bytes option) \<Rightarrow> FragmentCache" where
  "FragmentCache_new cfg fs =
     \<lparr> config = cfg, l1_cache = [], l2_cache = [], l3_cache = [],
       l1_lru = [], l2_lru = [], l3_lru = [],
       stats = \<lparr> hits = 0, misses = 0, total_size = 0, entry_count = 0, evictions = 0 \<rparr>,
       files = fs \<rparr>"

subsection \<open>Statistics and sizes\<close>

definition ResetStats :: "FragmentCache \<Rightarrow> FragmentCache" where
  "ResetStats s = s\<lparr> stats := (stats s)\<lparr> hits := 0, misses := 0, evictions := 0 \<rparr> \<rparr>"

definition sum_sizes :: "tier \<Rightarrow> nat" where
  "sum_sizes t = sum_list (map (\<lambda>p. size_e (snd p)) t)"

definition GetCurrentSize :: "CacheLevel \<Rightarrow> FragmentCache \<Rightarrow> nat" where
  "GetCurrentSize lv s =
     (case lv of
        L1_GPU \<Rightarrow> sum_sizes (l1_cache s)
      | L2_RAM \<Rightarrow> sum_sizes (l2_cache s)
      | L3_DISK \<Rightarrow> sum_sizes (l3_cache s))"

definition GetEntryCount :: "CacheLevel \<Rightarrow> FragmentCache \<Rightarrow> nat" where
  "GetEntryCount lv s =
     (case lv of
        L1_GPU \<Rightarrow> length (l1_cache s)
      | L2_RAM \<Rightarrow> length (l2_cache s)
      | L3_DISK \<Rightarrow> length (l3_cache s))"

text \<open>
  \<open>NeedEviction\<close>: \<open>current_size >= max_size * 0.9\<close>. The source compares in \<open>double\<close>;
  for caps below \<open>2^49\<close> bytes that comparison is the integer one written here.
\<close>

definition NeedEviction :: "CacheLevel \<Rightarrow> FragmentCache \<Rightarrow> bool" where
  "NeedEviction lv s =
     (let current_size = GetCurrentSize lv s;
          max_size = (case lv of
                        L1_GPU \<Rightarrow> max_l1_size (config s)
                      | L2_RAM \<Rightarrow> max_l2_size (config s)
                      | L3_DISK \<Rightarrow> max_l3_size (config s))
      in 10 * current_size \<ge> 9 * max_size)"

subsection \<open>Compression and files\<close>

text \<open>\<open>Compress\<close>: the original bytes come back when zlib fails.\<close>

definition Compress :: "env \<Rightarrow> FragmentCache \<Rightarrow> bytes \<Rightarrow> bytes" where
  "Compress E s d =
     (case compress2 E (compression_level (config s)) d of
        Some c \<Rightarrow> c
      | None \<Rightarrow> d)"

text \<open>\<open>Decompress\<close>: a fixed buffer of 10 MB; the input comes back when zlib fails.\<close>

definition Decompress :: "env \<Rightarrow> bytes \<Rightarrow> bytes" where
  "Decompress E compressed_data =
     (case uncompress E (10 * 1024 * 1024) compressed_data of
        Some d \<Rightarrow> d
      | None \<Rightarrow> compressed_data)"

definition GetFilePath :: "env \<Rightarrow> FragmentCache \<Rightarrow> string \<Rightarrow> path" where
  "GetFilePath E s k = (cache_directory (config s), hasher E k)"

definition SaveToFile :: "env \<Rightarrow> string \<Rightarrow> bytes \<Rightarrow> FragmentCache \<Rightarrow> bool \<times> FragmentCache" where
  "SaveToFile E k d s =
     (let filepath = GetFilePath E s k
      in case write_fault E filepath of
           OpenFault \<Rightarrow> (False, s)
         | WriteFault n \<Rightarrow> (False, s\<lparr> files := (files s)(filepath \<mapsto> take n d) \<rparr>)
         | FlushFault n \<Rightarrow> (True, s\<lparr> files := (files s)(filepath \<mapsto> take n d) \<rparr>)
         | NoFault \<Rightarrow> (True, s\<lparr> files := (files s)(filepath \<mapsto> d) \<rparr>))"

text \<open>
  \<open>LoadFromFile\<close> fails when the file cannot be opened and leaves \<open>data\<close> as it was;
  a file that opens is read whole.
\<close>

definition LoadFromFile :: "env \<Rightarrow> string \<Rightarrow> bytes \<Rightarrow> FragmentCache \<Rightarrow> bool \<times> bytes" where
  "LoadFromFile E k d s =
     (case files s (GetFilePath E s k) of
        None \<Rightarrow> (False, d)
      | Some content \<Rightarrow> (True, content))"

subsection \<open>Reading and writing one tier\<close>

text \<open>
  \<open>GetFromLevel\<close> returns the flag, the caller's \<open>data\<close> buffer and the cache. A hit
  stamps the entry found (\<open>last_access\<close>, \<open>access_count\<close>) in place.
\<close>

definition touch_entry :: "time_point \<Rightarrow> CacheEntry \<Rightarrow> CacheEntry" where
  "touch_entry now e = e\<lparr> last_access := now, access_count := access_count e + 1 \<rparr>"

definition GetFromLevel ::
  "env \<Rightarrow> time_point \<Rightarrow> string \<Rightarrow> bytes \<Rightarrow> CacheLevel \<Rightarrow> FragmentCache \<Rightarrow> bool \<times> bytes \<times> FragmentCache" where
  "GetFromLevel E now k d lv s =
     (case lv of
        L1_GPU \<Rightarrow>
          (case map_of (l1_cache s) k of
             Some e \<Rightarrow> (True, data e, s\<lparr> l1_cache := AList.update k (touch_entry now e) (l1_cache s) \<rparr>)
           | None \<Rightarrow> (False, d, s))
      | L2_RAM \<Rightarrow>
          (case map_of (l2_cache s) k of
             Some e \<Rightarrow> (True, data e, s\<lparr> l2_cache := AList.update k (touch_entry now e) (l2_cache s) \<rparr>)
           | None \<Rightarrow> (False, d, s))
      | L3_DISK \<Rightarrow>
          (case map_of (l3_cache s) k of
             Some e \<Rightarrow>
               (case LoadFromFile E k d s of
                  (True, d') \<Rightarrow>
                    (True, if compressed e then Decompress E d' else d',
                     s\<lparr> l3_cache := AList.update k (touch_entry now e) (l3_cache s) \<rparr>)
                | (False, d') \<Rightarrow> (False, d', s))
           | None \<Rightarrow> (False, d, s)))"

text \<open>The entry that \<open>PutToLevel\<close> builds before it takes the tier's lock.\<close>

definition new_entry :: "env \<Rightarrow> time_point \<Rightarrow> string \<Rightarrow> bytes \<Rightarrow> CacheLevel \<Rightarrow> FragmentCache \<Rightarrow> CacheEntry" where
  "new_entry E now k d lv s =
     (let comp = (lv = L3_DISK \<and> enable_compression (config s)
                    \<and> length d \<ge> compression_threshold (config s));
          stored = (if comp then Compress E s d else d)
      in \<lparr> data = stored, size_e = length stored, last_access = now, creation_time = now,
           access_count = 1, compressed = comp, level = lv, key = k \<rparr>)"

definition count_entry :: "CacheEntry \<Rightarrow> CacheStats \<Rightarrow> CacheStats" where
  "count_entry e st =
     st\<lparr> total_size := total_size st + of_nat (size_e e), entry_count := entry_count st + 1 \<rparr>"

definition PutToLevel ::
  "env \<Rightarrow> time_point \<Rightarrow> string \<Rightarrow> bytes \<Rightarrow> CacheLevel \<Rightarrow> FragmentCache \<Rightarrow> bool \<times> FragmentCache" where
  "PutToLevel E now k d lv s =
     (let entry = new_entry E now k d lv s
      in case lv of
           L1_GPU \<Rightarrow>
             (True, s\<lparr> l1_cache := AList.update k entry (l1_cache s),
                       l1_lru := Access k (l1_lru s),
                       stats := count_entry entry (stats s) \<rparr>)
         | L2_RAM \<Rightarrow>
             (True, s\<lparr> l2_cache := AList.update k entry (l2_cache s),
                       l2_lru := Access k (l2_lru s),
                       stats := count_entry entry (stats s) \<rparr>)
         | L3_DISK \<Rightarrow>
             (let s1 = s\<lparr> l3_cache := AList.update k entry (l3_cache s),
                          l3_lru := Access k (l3_lru s) \<rparr>
              in case SaveToFile E k (data entry) s1 of
                   (False, s2) \<Rightarrow>
                     (False, s2\<lparr> l3_cache := AList.delete k (l3_cache s2),
                                 l3_lru := LRU_Remove k (l3_lru s2) \<rparr>)
                 | (True, s2) \<Rightarrow>
                     (True, s2\<lparr> stats := count_entry entry (stats s2) \<rparr>)))"

subsection \<open>Remove and eviction\<close>

text \<open>
  \<open>Remove\<close> has one block per tier, each under that tier's lock: the key is looked up,
  and when it is found its size leaves \<open>total_size\<close>, the entry leaves the map and the
  key leaves the recency index; the slow tier's block also deletes the file
  (\<open>std::filesystem::remove\<close>, taken not to throw). Each block returns whether it found
  the key.
\<close>

definition Remove_l1 :: "string \<Rightarrow> FragmentCache \<Rightarrow> bool \<times> FragmentCache" where
  "Remove_l1 k s =
     (case map_of (l1_cache s) k of
        Some e \<Rightarrow>
          (True, s\<lparr> stats := (stats s)\<lparr> total_size := total_size (stats s) - of_nat (size_e e) \<rparr>,
                    l1_cache := AList.delete k (l1_cache s),
                    l1_lru := LRU_Remove k (l1_lru s) \<rparr>)
      | None \<Rightarrow> (False, s))"

definition Remove_l2 :: "string \<Rightarrow> FragmentCache \<Rightarrow> bool \<times> FragmentCache" where
  "Remove_l2 k s =
     (case map_of (l2_cache s) k of
        Some e \<Rightarrow>
          (True, s\<lparr> stats := (stats s)\<lparr> total_size := total_size (stats s) - of_nat (size_e e) \<rparr>,
                    l2_cache := AList.delete k (l2_cache s),
                    l2_lru := LRU_Remove k (l2_lru s) \<rparr>)
      | None \<Rightarrow> (False, s))"

definition Remove_l3 :: "env \<Rightarrow> string \<Rightarrow> FragmentCache \<Rightarrow> bool \<times> FragmentCache" where
  "Remove_l3 E k s =
     (case map_of (l3_cache s) k of
        Some e \<Rightarrow>
          (True, s\<lparr> stats := (stats s)\<lparr> total_size := total_size (stats s) - of_nat (size_e e) \<rparr>,
                    l3_cache := AList.delete k (l3_cache s),
                    l3_lru := LRU_Remove k (l3_lru s),
                    files := (files s)((GetFilePath E s k) := None) \<rparr>)
      | None \<Rightarrow> (False, s))"

text \<open>
  \<open>Remove\<close> runs the three blocks, whatever the earlier ones found, and decrements
  \<open>entry_count\<close> once when any of them found the key.
\<close>

definition Remove :: "env \<Rightarrow> string \<Rightarrow> FragmentCache \<Rightarrow> bool \<times> FragmentCache" where
  "Remove E k s =
     (let (r1, s1) = Remove_l1 k s;
          (r2, s2) = Remove_l2 k s1;
          (r3, s3) = Remove_l3 E k s2;
          removed = (r1 \<or> r2 \<or> r3)
      in if removed
         then (True, s3\<lparr> stats := (stats s3)\<lparr> entry_count := entry_count (stats s3) - 1 \<rparr> \<rparr>)
         else (False, s3))"

definition EvictLRU :: "env \<Rightarrow> CacheLevel \<Rightarrow> FragmentCache \<Rightarrow> FragmentCache" where
  "EvictLRU E lv s =
     (let lru_key = (case lv of
                       L1_GPU \<Rightarrow> GetLRU (l1_lru s)
                     | L2_RAM \<Rightarrow> GetLRU (l2_lru s)
                     | L3_DISK \<Rightarrow> GetLRU (l3_lru s))
      in if lru_key \<noteq> []
         then (let s1 = snd (Remove E lru_key s)
               in s1\<lparr> stats := (stats s1)\<lparr> evictions := evictions (stats s1) + 1 \<rparr> \<rparr>)
         else s)"

subsection \<open>Get and Put\<close>

definition count_hit :: "FragmentCache \<Rightarrow> FragmentCache" where
  "count_hit s = s\<lparr> stats := (stats s)\<lparr> hits := hits (stats s) + 1 \<rparr> \<rparr>"

definition count_miss :: "FragmentCache \<Rightarrow> FragmentCache" where
  "count_miss s = s\<lparr> stats := (stats s)\<lparr> misses := misses (stats s) + 1 \<rparr> \<rparr>"

definition Get ::
  "env \<Rightarrow> time_point \<Rightarrow> string \<Rightarrow> bytes \<Rightarrow> FragmentCache \<Rightarrow> bool \<times> bytes \<times> FragmentCache" where
  "Get E now k d s =
     (case GetFromLevel E now k d L1_GPU s of
        (True, d1, s1) \<Rightarrow>
          (True, d1, (count_hit s1)\<lparr> l1_lru := Access k (l1_lru s1) \<rparr>)
      | (False, d1, s1) \<Rightarrow>
     (case GetFromLevel E now k d1 L2_RAM s1 of
        (True, d2, s2) \<Rightarrow>
          (let s3 = (count_hit s2)\<lparr> l2_lru := Access k (l2_lru s2) \<rparr>
           in (True, d2,
               if GetCurrentSize L1_GPU s3 + length d2 \<le> max_l1_size (config s3)
               then snd (PutToLevel E now k d2 L1_GPU s3) else s3))
      | (False, d2, s2) \<Rightarrow>
     (case GetFromLevel E now k d2 L3_DISK s2 of
        (True, d3, s3) \<Rightarrow>
          (let s4 = (count_hit s3)\<lparr> l3_lru := Access k (l3_lru s3) \<rparr>
           in (True, d3,
               if GetCurrentSize L2_RAM s4 + length d3 \<le> max_l2_size (config s4)
               then snd (PutToLevel E now k d3 L2_RAM s4) else s4))
      | (False, d3, s3) \<Rightarrow> (False, d3, count_miss s3))))"

text \<open>The tier that \<open>Put\<close> chooses before it evicts.\<close>

definition target_level :: "bytes \<Rightarrow> CacheLevel \<Rightarrow> FragmentCache \<Rightarrow> CacheLevel" where
  "target_level d preferred_level s =
     (let t1 = (if preferred_level = L1_GPU
                   \<and> GetCurrentSize L1_GPU s + length d > max_l1_size (config s)
                then L2_RAM else preferred_level)
      in if t1 = L2_RAM \<and> GetCurrentSize L2_RAM s + length d > max_l2_size (config s)
         then L3_DISK else t1)"

text \<open>
  The loop \<open>while (NeedEviction(target_level)) EvictLRU(target_level);\<close> of \<open>Put\<close>.
  It need not end (the index may be empty, or its last key the empty string), so its
  result is an option and \<open>None\<close> is the loop that runs forever.
\<close>

partial_function (option) evict_while_needed :: "env \<Rightarrow> CacheLevel \<Rightarrow> FragmentCache \<Rightarrow> FragmentCache option" where
  "evict_while_needed E lv s =
     (if NeedEviction lv s then evict_while_needed E lv (EvictLRU E lv s) else Some s)"

declare evict_while_needed.simps [code]

definition Put ::
  "env \<Rightarrow> time_point \<Rightarrow> string \<Rightarrow> bytes \<Rightarrow> CacheLevel \<Rightarrow> FragmentCache \<Rightarrow> (bool \<times> FragmentCache) option" where
  "Put E now k d preferred_level s =
     (let t = target_level d preferred_level s
      in case evict_while_needed E t s of
           None \<Rightarrow> None
         | Some s1 \<Rightarrow> Some (PutToLevel E now k d t s1))"

subsection \<open>The background sweep\<close>

text \<open>
  \<open>IsExpired\<close>: the age is \<open>duration_cast<seconds>\<close> of a difference of clock readings,
  which truncates towards zero.
\<close>

definition ticks_per_second :: int where
  "ticks_per_second = 1000000000"

definition duration_cast_seconds :: "int \<Rightarrow> int" where
  "duration_cast_seconds t = sgn t * (\<bar>t\<bar> div ticks_per_second)"

definition IsExpired :: "time_point \<Rightarrow> FragmentCache \<Rightarrow> CacheEntry \<Rightarrow> bool" where
  "IsExpired now s e = (duration_cast_seconds (now - last_access e) > max_age (config s))"

definition expired_keys :: "time_point \<Rightarrow> FragmentCache \<Rightarrow> string list" where
  "expired_keys now s =
     map fst (filter (\<lambda>p. IsExpired now s (snd p)) (l2_cache s))
     @ map fst (filter (\<lambda>p. IsExpired now s (snd p)) (l3_cache s))"

definition CleanupExpired :: "env \<Rightarrow> time_point \<Rightarrow> FragmentCache \<Rightarrow> FragmentCache" where
  "CleanupExpired E now s = fold (\<lambda>k s'. snd (Remove E k s')) (expired_keys now s) s"

subsection \<open>Names for the members of one tier\<close>

text \<open>
  The map and the cap that the \<open>switch (level)\<close> statements of the
  source select, and the number of entries held by the three maps together.
\<close>

definition level_cache :: "CacheLevel \<Rightarrow> FragmentCache \<Rightarrow> tier" where
  "level_cache lv s = (case lv of L1_GPU \<Rightarrow> l1_cache s | L2_RAM \<Rightarrow> l2_cache s | L3_DISK \<Rightarrow> l3_cache s)"

definition level_cap :: "CacheLevel \<Rightarrow> Config \<Rightarrow> nat" where
  "level_cap lv cfg = (case lv of L1_GPU \<Rightarrow> max_l1_size cfg | L2_RAM \<Rightarrow> max_l2_size cfg | L3_DISK \<Rightarrow> max_l3_size cfg)"

definition live_entries :: "FragmentCache \<Rightarrow> nat" where
  "live_entries s = GetEntryCount L1_GPU s + GetEntryCount L2_RAM s + GetEntryCount L3_DISK s"

text \<open>Whether a key has an entry in a tier that Get reads before the tier \<open>lv\<close>.\<close>

definition resident_in_faster_tier :: "string \<Rightarrow> CacheLevel \<Rightarrow> FragmentCache \<Rightarrow> bool" where
  "resident_in_faster_tier k lv s =
     (case lv of
        L1_GPU \<Rightarrow> False
      | L2_RAM \<Rightarrow> map_of (l1_cache s) k \<noteq> None
      | L3_DISK \<Rightarrow> map_of (l1_cache s) k \<noteq> None \<or> map_of (l2_cache s) k \<noteq> None)"

subsection \<open>Sequences of calls\<close>

text \<open>Calls made one after the other: each starts in the state the previous one left.\<close>

fun run_puts ::
  "env \<Rightarrow> (time_point \<times> string \<times> bytes \<times> CacheLevel) list \<Rightarrow> FragmentCache \<Rightarrow> (bool list \<times> FragmentCache) option" where
  "run_puts E [] s = Some ([], s)"
| "run_puts E ((now, k, d, lv) # rs) s =
     (case Put E now k d lv s of
        None \<Rightarrow> None
      | Some (ok, s1) \<Rightarrow>
          (case run_puts E rs s1 of
             None \<Rightarrow> None
           | Some (oks, s2) \<Rightarrow> Some (ok # oks, s2)))"


subsection \<open>A concrete environment and concrete scenarios\<close>

text \<open>
  An environment to run the cache in: the codec puts a zero byte in front of the
  payload, the hash of a key is its length, and every write succeeds.
\<close>

definition toy_env :: env where
  "toy_env =
     \<lparr> deflate = (\<lambda>lvl d. Some (0 # d)),
       inflate = (\<lambda>c. case c of [] \<Rightarrow> None | x # d \<Rightarrow> if x = 0 then Some d else None),
       hasher = length,
       write_fault = (\<lambda>p. NoFault) \<rparr>"

text \<open>Scenario B of the specification: a fast tier of 1000 bytes, five entries of 300 bytes.\<close>

definition scenarioB_config :: Config where
  "scenarioB_config = Config_default\<lparr> max_l1_size := 1000 \<rparr>"

definition scenarioB_requests :: "(time_point \<times> string \<times> bytes \<times> CacheLevel) list" where
  "scenarioB_requests =
     [(0, ''a'', replicate 300 1, L1_GPU), (1, ''b'', replicate 300 2, L1_GPU),
      (2, ''c'', replicate 300 3, L1_GPU), (3, ''d'', replicate 300 4, L1_GPU),
      (4, ''e'', replicate 300 5, L1_GPU)]"

definition scenarioB_final :: FragmentCache where
  "scenarioB_final =
     snd (the (run_puts toy_env scenarioB_requests (FragmentCache_new scenarioB_config Map.empty)))"

text \<open>A cache that holds the key \<open>a\<close> in its medium tier only.\<close>

definition one_entry_cache :: FragmentCache where
  "one_entry_cache =
     snd (the (Put toy_env 0 ''a'' [1, 2, 3] L2_RAM (FragmentCache_new Config_default Map.empty)))"

text \<open>A cache that holds the key \<open>k\<close> in its slow tier only.\<close>

definition slow_only_cache :: FragmentCache where
  "slow_only_cache =
     snd (the (Put toy_env 0 ''k'' [1, 2, 3] L3_DISK (FragmentCache_new Config_default Map.empty)))"

text \<open>
  A payload of 10 MiB and one byte, a codec that packs it into a single byte, and the
  cache after that payload has been written to the slow tier.
\<close>

definition big_payload :: bytes where
  "big_payload = replicate 10485761 7"

definition big_env :: env where
  "big_env = toy_env\<lparr> deflate := (\<lambda>lvl d. Some [42]), inflate := (\<lambda>c. Some big_payload) \<rparr>"

definition oversize_cache :: FragmentCache where
  "oversize_cache =
     snd (the (Put big_env 0 ''k'' big_payload L3_DISK (FragmentCache_new Config_default Map.empty)))"

text \<open>
  The key \<open>a\<close> written to the medium tier at time 0, read at once (which copies it into
  the fast tier) and read again 4000 seconds later (a hit in the fast tier).
\<close>

definition promoted_cache :: FragmentCache where
  "promoted_cache =
     snd (snd (Get toy_env 4000000000000 ''a'' []
       (snd (snd (Get toy_env 0 ''a'' [] one_entry_cache)))))"

text \<open>An environment in which no cache file can be opened for writing.\<close>

definition failing_env :: env where
  "failing_env = toy_env\<lparr> write_fault := (\<lambda>p. OpenFault) \<rparr>"

text \<open>
  A configuration with a fast and a slow tier of 10 bytes; the empty cache after a Put
  of 10 bytes to the fast tier, and after a Put of 50 bytes to the slow tier; and a
  cache whose fast tier holds 9 bytes under the key \<open>a\<close>.
\<close>

definition small_config :: Config where
  "small_config = Config_default\<lparr> max_l1_size := 10, max_l3_size := 10 \<rparr>"

definition exact_fill_cache :: FragmentCache where
  "exact_fill_cache =
     snd (the (Put toy_env 0 ''a'' (replicate 10 1) L1_GPU (FragmentCache_new small_config Map.empty)))"

definition slow_overflow_cache :: FragmentCache where
  "slow_overflow_cache =
     snd (the (Put toy_env 0 ''a'' (replicate 50 1) L3_DISK (FragmentCache_new small_config Map.empty)))"

definition nearly_full_cache :: FragmentCache where
  "nearly_full_cache =
     snd (the (Put toy_env 0 ''a'' (replicate 9 1) L1_GPU (FragmentCache_new small_config Map.empty)))"

text \<open>
  A cache that holds the key \<open>k\<close> in its fast tier with the payload 1, and the same cache
  after a Put of the payload 2 under \<open>k\<close> with the medium tier preferred.
\<close>

definition stale_cache :: FragmentCache where
  "stale_cache =
     snd (the (Put toy_env 0 ''k'' [1] L1_GPU (FragmentCache_new Config_default Map.empty)))"


text \<open>A configuration that compresses every slow-tier payload of two bytes or more.\<close>

definition eager_config :: Config where
  "eager_config = Config_default\<lparr> compression_threshold := 2 \<rparr>"




text \<open>
  The cache that holds \<open>k\<close> in its fast tier with the payload 1, after the payload of
  10 MiB and one byte has been written under \<open>k\<close> to the slow tier.
\<close>

definition stale_oversize_cache :: FragmentCache where
  "stale_oversize_cache = snd (the (Put big_env 1 ''k'' big_payload L3_DISK stale_cache))"

section \<open>Theorems\<close>

lemmas put_defs = Put_def target_level_def NeedEviction_def GetCurrentSize_def sum_sizes_def
  PutToLevel_def new_entry_def count_entry_def Access_def FragmentCache_new_def
  evict_while_needed.simps Let_def

text \<open>The definitions that evaluate the cache on a concrete state.\<close>

lemmas run_defs = put_defs Get_def GetFromLevel_def SaveToFile_def LoadFromFile_def GetFilePath_def
  Compress_def Decompress_def compress2_def uncompress_def count_hit_def count_miss_def
  touch_entry_def toy_env_def Config_default_def update_conv'
  IsExpired_def duration_cast_seconds_def ticks_per_second_def
  expired_keys_def CleanupExpired_def Remove_def Remove_l1_def Remove_l2_def Remove_l3_def
  LRU_Remove_def EvictLRU_def GetLRU_def level_cap_def level_cache_def
  small_config_def eager_config_def resident_in_faster_tier_def

subsection \<open>Statistics\<close>














text \<open>
  C9. ResetStats zeroes the hit, miss and eviction counters; \<open>total_size\<close>,
  \<open>entry_count\<close>, the three tier maps, the three recency indices, the files and the
  configuration are as before.
\<close>

theorem C9_ResetStats_frame:
  "hits (stats (ResetStats s)) = 0 \<and> misses (stats (ResetStats s)) = 0
   \<and> evictions (stats (ResetStats s)) = 0
   \<and> total_size (stats (ResetStats s)) = total_size (stats s)
   \<and> entry_count (stats (ResetStats s)) = entry_count (stats s)
   \<and> l1_cache (ResetStats s) = l1_cache s \<and> l2_cache (ResetStats s) = l2_cache s
   \<and> l3_cache (ResetStats s) = l3_cache s
   \<and> l1_lru (ResetStats s) = l1_lru s \<and> l2_lru (ResetStats s) = l2_lru s
   \<and> l3_lru (ResetStats s) = l3_lru s
   \<and> files (ResetStats s) = files s \<and> config (ResetStats s) = config s"
  by (simp add: ResetStats_def)

subsection \<open>Scenario B\<close>

text \<open>
  C3, as the code has it. On an empty cache whose fast tier holds 1000 bytes (and whose
  medium tier holds at least 600), five Puts of 300-byte entries under distinct keys, all
  with preferred tier Fast, succeed; the first three entries are resident in the fast
  tier, the fourth and fifth are written to the medium tier because they no longer fit
  into the fast one, and no eviction is recorded.
\<close>

theorem C3_five_puts:
  assumes d: "distinct [k1, k2, k3, k4, k5]"
    and b: "length b1 = 300" "length b2 = 300" "length b3 = 300" "length b4 = 300" "length b5 = 300"
    and c: "max_l1_size cfg = 1000" "600 \<le> max_l2_size cfg"
  shows "\<exists>s. run_puts E [(t1, k1, b1, L1_GPU), (t2, k2, b2, L1_GPU), (t3, k3, b3, L1_GPU),
                          (t4, k4, b4, L1_GPU), (t5, k5, b5, L1_GPU)] (FragmentCache_new cfg fs)
               = Some ([True, True, True, True, True], s)
             \<and> map fst (l1_cache s) = [k1, k2, k3]
             \<and> map fst (l2_cache s) = [k4, k5]
             \<and> GetEntryCount L1_GPU s = 3
             \<and> evictions (stats s) = 0"
  using d b c by (simp add: put_defs GetEntryCount_def)

text \<open>The theorem at the keys \<open>a\<close> to \<open>e\<close> and the default configuration.\<close>

theorem C3_five_puts_witness:
  "\<exists>s. run_puts toy_env scenarioB_requests (FragmentCache_new scenarioB_config Map.empty)
          = Some ([True, True, True, True, True], s)
        \<and> map fst (l1_cache s) = [''a'', ''b'', ''c'']
        \<and> map fst (l2_cache s) = [''d'', ''e'']
        \<and> GetEntryCount L1_GPU s = 3
        \<and> evictions (stats s) = 0"
  unfolding scenarioB_requests_def
  using C3_five_puts[of "''a''" "''b''" "''c''" "''d''" "''e''" "replicate 300 1" "replicate 300 2"
      "replicate 300 3" "replicate 300 4" "replicate 300 5" scenarioB_config toy_env 0 1 2 3 4 Map.empty]
  by (simp add: scenarioB_config_def Config_default_def)

text \<open>
  C3 as the specification states it (two entries left in the fast tier, three evictions)
  fails on that run: three entries are left there and no eviction is counted.
\<close>

theorem C3_scenarioB_counterexample:
  "run_puts toy_env scenarioB_requests (FragmentCache_new scenarioB_config Map.empty) \<noteq> None
   \<and> GetEntryCount L1_GPU scenarioB_final = 3 \<and> GetEntryCount L1_GPU scenarioB_final \<noteq> 2
   \<and> map fst (l1_cache scenarioB_final) = [''a'', ''b'', ''c'']
   \<and> evictions (stats scenarioB_final) = 0 \<and> evictions (stats scenarioB_final) \<noteq> 3"
  by (simp add: scenarioB_final_def scenarioB_requests_def scenarioB_config_def Config_default_def
      put_defs GetEntryCount_def)

subsection \<open>Replacing an entry\<close>

lemma length_update_present: "map_of al k = Some v \<Longrightarrow> length (AList.update k e al) = length al"
  by (induction al) (auto split: if_splits)

text \<open>
  The write that ends every Put, for a key already present in the fast or medium tier:
  it succeeds and replaces the map entry, the tier's entry count is unchanged, yet
  \<open>entry_count\<close> grows by one and \<open>total_size\<close> by the size of the new payload.
\<close>

lemma PutToLevel_replacing:
  assumes lv: "lv \<noteq> L3_DISK"
    and old: "map_of (level_cache lv s) k = Some old"
    and put: "PutToLevel E now k d lv s = (ok, s')"
  shows "ok \<and> GetEntryCount lv s' = GetEntryCount lv s
         \<and> map_of (level_cache lv s') k = Some (new_entry E now k d lv s)
         \<and> data (new_entry E now k d lv s) = d
         \<and> entry_count (stats s') = entry_count (stats s) + 1
         \<and> total_size (stats s') = total_size (stats s) + of_nat (length d)
         \<and> (live_entries s \<le> unat (entry_count (stats s)) \<and> unat (entry_count (stats s)) < 2 ^ 64 - 1
              \<longrightarrow> live_entries s' < unat (entry_count (stats s')))"
proof -
  have u: "unat (entry_count (stats s)) < 2 ^ 64 - 1 \<Longrightarrow>
           unat (entry_count (stats s) + 1) = unat (entry_count (stats s)) + 1"
    by (simp add: unat_word_ariths)
  show ?thesis
    using assms u
    by (cases lv)
      (auto simp: PutToLevel_def GetEntryCount_def level_cache_def live_entries_def
        new_entry_def count_entry_def Let_def length_update_present update_conv')
qed

text \<open>Put is that write whenever its target tier is below 90 percent of its cap.\<close>

lemma Put_no_eviction:
  "\<not> NeedEviction (target_level d pref s) s \<Longrightarrow>
     Put E now k d pref s = Some (PutToLevel E now k d (target_level d pref s) s)"
  by (simp add: Put_def Let_def evict_while_needed.simps)

text \<open>
  C10, as the code has it. A Put whose target tier is the fast or the medium one, for a
  key already present in that tier, at a moment when that tier is below 90 percent of
  its cap (so that the eviction loop of Put does not run), returns true and replaces
  the map entry: the tier's entry count is unchanged, yet \<open>entry_count\<close> grows by one
  and \<open>total_size\<close> grows by the size of the new payload, nothing being subtracted for
  the entry replaced. So if \<open>entry_count\<close> was at least the number of entries held
  before (and does not wrap), it exceeds it afterwards.
\<close>

theorem C10_replacing_put_counts:
  assumes t: "target_level d pref s = lv" and lv: "lv \<noteq> L3_DISK"
    and old: "map_of (level_cache lv s) k = Some old"
    and calm: "\<not> NeedEviction lv s"
  shows "\<exists>s'. Put E now k d pref s = Some (True, s')
           \<and> GetEntryCount lv s' = GetEntryCount lv s
           \<and> map_of (level_cache lv s') k = Some (new_entry E now k d lv s)
           \<and> data (new_entry E now k d lv s) = d
           \<and> entry_count (stats s') = entry_count (stats s) + 1
           \<and> total_size (stats s') = total_size (stats s) + of_nat (length d)
           \<and> (live_entries s \<le> unat (entry_count (stats s))
                \<and> unat (entry_count (stats s)) < 2 ^ 64 - 1
                \<longrightarrow> live_entries s' < unat (entry_count (stats s')))"
proof -
  obtain ok s' where p: "PutToLevel E now k d lv s = (ok, s')"
    by (cases "PutToLevel E now k d lv s") auto
  from PutToLevel_replacing[OF lv old p] have ok: "ok" by simp
  from calm t p ok have put: "Put E now k d pref s = Some (True, s')"
    by (simp add: Put_no_eviction)
  from PutToLevel_replacing[OF lv old p] put show ?thesis by blast
qed

text \<open>The theorem at a second Put of the key \<open>a\<close> into the medium tier.\<close>

theorem C10_replacing_put_counts_witness:
  "\<exists>s'. Put toy_env 5 ''a'' [9, 9] L2_RAM one_entry_cache = Some (True, s')
        \<and> GetEntryCount L2_RAM s' = 1
        \<and> GetEntryCount L2_RAM one_entry_cache = 1
        \<and> entry_count (stats one_entry_cache) = 1
        \<and> entry_count (stats s') = 2
        \<and> total_size (stats one_entry_cache) = 3
        \<and> total_size (stats s') = 5
        \<and> live_entries s' = 1"
proof -
  have t: "target_level [9, 9] L2_RAM one_entry_cache = L2_RAM"
    by (simp add: one_entry_cache_def run_defs)
  have old: "map_of (level_cache L2_RAM one_entry_cache) ''a''
               = Some (new_entry toy_env 0 ''a'' [1, 2, 3] L2_RAM (FragmentCache_new Config_default Map.empty))"
    by (simp add: one_entry_cache_def run_defs)
  have calm: "\<not> NeedEviction L2_RAM one_entry_cache"
    by (simp add: one_entry_cache_def run_defs)
  have st: "entry_count (stats one_entry_cache) = 1" "total_size (stats one_entry_cache) = 3"
     "live_entries one_entry_cache = 1" "GetEntryCount L2_RAM one_entry_cache = 1"
    by (simp_all add: one_entry_cache_def run_defs live_entries_def GetEntryCount_def)
  from C10_replacing_put_counts[OF t _ old calm, of toy_env 5]
  obtain s' where p: "Put toy_env 5 ''a'' [9, 9] L2_RAM one_entry_cache = Some (True, s')"
    and a: "GetEntryCount L2_RAM s' = GetEntryCount L2_RAM one_entry_cache"
    and b: "entry_count (stats s') = entry_count (stats one_entry_cache) + 1"
    and c: "total_size (stats s') = total_size (stats one_entry_cache) + of_nat (length [9, 9 :: byte])"
    and d: "live_entries one_entry_cache \<le> unat (entry_count (stats one_entry_cache))
              \<and> unat (entry_count (stats one_entry_cache)) < 2 ^ 64 - 1
              \<longrightarrow> live_entries s' < unat (entry_count (stats s'))"
    by auto
  from d st b have lt: "live_entries s' < 2" by simp
  have "0 < live_entries s'" using a st by (simp add: live_entries_def)
  with lt have le: "live_entries s' = 1" by simp
  from p a b c st le show ?thesis by simp
qed

text \<open>
  C10 as the specification states it (for every Put of a key present in the target
  tier) fails when the eviction loop runs: the fast tier of 10 bytes holds 9 bytes under
  the key \<open>a\<close>; a Put of one byte under \<open>a\<close> first evicts \<open>a\<close> and then writes it, so
  \<open>entry_count\<close> is 1 before and after, equal to the number of entries held, and
  \<open>total_size\<close> goes from 9 to 1.
\<close>

theorem C10_evicting_put_counterexample:
  "target_level [7] L1_GPU nearly_full_cache = L1_GPU
   \<and> map_option data (map_of (l1_cache nearly_full_cache) ''a'') = Some (replicate 9 1)
   \<and> entry_count (stats nearly_full_cache) = 1
   \<and> total_size (stats nearly_full_cache) = 9
   \<and> Put toy_env 1 ''a'' [7] L1_GPU nearly_full_cache \<noteq> None
   \<and> fst (the (Put toy_env 1 ''a'' [7] L1_GPU nearly_full_cache))
   \<and> entry_count (stats (snd (the (Put toy_env 1 ''a'' [7] L1_GPU nearly_full_cache)))) = 1
   \<and> live_entries (snd (the (Put toy_env 1 ''a'' [7] L1_GPU nearly_full_cache))) = 1
   \<and> total_size (stats (snd (the (Put toy_env 1 ''a'' [7] L1_GPU nearly_full_cache)))) = 1
   \<and> evictions (stats (snd (the (Put toy_env 1 ''a'' [7] L1_GPU nearly_full_cache)))) = 1"
  by (simp add: nearly_full_cache_def run_defs live_entries_def GetEntryCount_def)

subsection \<open>Reading from the slow tier\<close>

lemma GetFromLevel_miss:
  "map_of (level_cache lv s) k = None \<Longrightarrow> GetFromLevel E now k d lv s = (False, d, s)"
  by (cases lv) (simp_all add: GetFromLevel_def level_cache_def)

text \<open>
  C5. If the key is in neither the fast nor the medium map (it was written to the slow
  tier only), a Get that succeeds with bytes \<open>B\<close>, at a moment when the medium tier has
  room for \<open>B\<close>, leaves the key readable from the medium tier with the same bytes; the
  slow tier still holds its entry (with the access stamp of this read) and no file has
  changed.
\<close>

theorem C5_slow_hit_promotes:
  assumes n1: "map_of (l1_cache s) k = None" and n2: "map_of (l2_cache s) k = None"
    and get: "Get E now k d0 s = (True, B, s')"
    and room: "GetCurrentSize L2_RAM s + length B \<le> max_l2_size (config s)"
  shows "fst (GetFromLevel E now' k d1 L2_RAM s')
         \<and> fst (snd (GetFromLevel E now' k d1 L2_RAM s')) = B
         \<and> map_of (l3_cache s') k \<noteq> None
         \<and> map_of (l3_cache s') k = map_option (touch_entry now) (map_of (l3_cache s) k)
         \<and> files s' = files s"
proof -
  have m1: "GetFromLevel E now k d0 L1_GPU s = (False, d0, s)"
    using n1 by (simp add: GetFromLevel_miss level_cache_def)
  have m2: "GetFromLevel E now k d0 L2_RAM s = (False, d0, s)"
    using n2 by (simp add: GetFromLevel_miss level_cache_def)
  obtain f3 d3 s3 where g3: "GetFromLevel E now k d0 L3_DISK s = (f3, d3, s3)"
    by (cases "GetFromLevel E now k d0 L3_DISK s") auto
  from get m1 m2 g3 have f3: "f3" and B: "d3 = B"
    by (auto simp: Get_def Let_def split: if_splits bool.splits)
  from g3 f3 obtain e where e: "map_of (l3_cache s) k = Some e"
    and s3: "s3 = s\<lparr> l3_cache := AList.update k (touch_entry now e) (l3_cache s) \<rparr>"
    by (auto simp: GetFromLevel_def split: option.splits prod.splits bool.splits)
  from get m1 m2 g3 f3 B room s3
  have s': "s' = snd (PutToLevel E now k B L2_RAM ((count_hit s3)\<lparr> l3_lru := Access k (l3_lru s3) \<rparr>))"
    by (simp add: Get_def Let_def GetCurrentSize_def count_hit_def)
  show ?thesis
    using e unfolding s' s3
    by (simp add: PutToLevel_def GetFromLevel_def Let_def new_entry_def count_hit_def update_conv')
qed


text \<open>The theorem at a read of the key \<open>k\<close> written to the slow tier.\<close>

theorem C5_slow_hit_promotes_witness:
  "fst (GetFromLevel toy_env 2 ''k'' [] L2_RAM (snd (snd (Get toy_env 1 ''k'' [] slow_only_cache))))
   \<and> fst (snd (GetFromLevel toy_env 2 ''k'' [] L2_RAM (snd (snd (Get toy_env 1 ''k'' [] slow_only_cache)))))
       = [1, 2, 3]
   \<and> map_of (l3_cache (snd (snd (Get toy_env 1 ''k'' [] slow_only_cache)))) ''k'' \<noteq> None
   \<and> map_of (l3_cache (snd (snd (Get toy_env 1 ''k'' [] slow_only_cache)))) ''k''
       = map_option (touch_entry 1) (map_of (l3_cache slow_only_cache) ''k'')
   \<and> files (snd (snd (Get toy_env 1 ''k'' [] slow_only_cache))) = files slow_only_cache"
proof -
  have n: "map_of (l1_cache slow_only_cache) ''k'' = None" "map_of (l2_cache slow_only_cache) ''k'' = None"
    by (simp_all add: slow_only_cache_def run_defs)
  have get: "Get toy_env 1 ''k'' [] slow_only_cache
               = (True, [1, 2, 3], snd (snd (Get toy_env 1 ''k'' [] slow_only_cache)))"
    by (simp add: slow_only_cache_def run_defs)
  have room: "GetCurrentSize L2_RAM slow_only_cache + length [1, 2, 3 :: byte]
                \<le> max_l2_size (config slow_only_cache)"
    by (simp add: slow_only_cache_def run_defs)
  show ?thesis
    by (rule C5_slow_hit_promotes[OF n get room])
qed

text \<open>
  C8, as the code has it. Decompress inflates into a buffer of 10 MiB. For a slow-tier
  entry flagged compressed whose file holds the stream \<open>c\<close> of a payload \<open>B\<close> longer than
  10 MiB, and whose key has no entry in the fast or the medium tier, Get reports the
  entry found and returns \<open>c\<close>, the compressed bytes: zlib's uncompress fails and
  Decompress gives its input back.
\<close>

theorem C8_oversize_entry_comes_back_compressed:
  assumes n1: "map_of (l1_cache s) k = None" and n2: "map_of (l2_cache s) k = None"
    and e: "map_of (l3_cache s) k = Some e" and comp: "compressed e"
    and fl: "files s (GetFilePath E s k) = Some c"
    and orig: "inflate E c = Some B"
    and big: "length B > 10 * 1024 * 1024"
  shows "fst (Get E now k d0 s) \<and> fst (snd (Get E now k d0 s)) = c \<and> Decompress E c = c"
proof -
  have m1: "GetFromLevel E now k d0 L1_GPU s = (False, d0, s)"
    using n1 by (simp add: GetFromLevel_miss level_cache_def)
  have m2: "GetFromLevel E now k d0 L2_RAM s = (False, d0, s)"
    using n2 by (simp add: GetFromLevel_miss level_cache_def)
  have dec: "Decompress E c = c"
    using orig big by (simp add: Decompress_def uncompress_def)
  have g3: "GetFromLevel E now k d0 L3_DISK s
              = (True, c, s\<lparr> l3_cache := AList.update k (touch_entry now e) (l3_cache s) \<rparr>)"
    using e comp fl dec by (simp add: GetFromLevel_def LoadFromFile_def)
  show ?thesis
    using m1 m2 g3 dec by (simp add: Get_def Let_def)
qed

text \<open>The theorem at a payload of 10 MiB and one byte written to the slow tier.\<close>

theorem C8_oversize_entry_comes_back_compressed_witness:
  "length big_payload > 10 * 1024 * 1024
   \<and> fst (Get big_env 1 ''k'' [] oversize_cache)
   \<and> fst (snd (Get big_env 1 ''k'' [] oversize_cache)) = [42]
   \<and> Decompress big_env [42] = [42]"
proof -
  have n: "map_of (l1_cache oversize_cache) ''k'' = None" "map_of (l2_cache oversize_cache) ''k'' = None"
    by (simp_all add: oversize_cache_def big_env_def run_defs)
  have e: "map_of (l3_cache oversize_cache) ''k''
             = Some (new_entry big_env 0 ''k'' big_payload L3_DISK (FragmentCache_new Config_default Map.empty))"
    by (simp add: oversize_cache_def big_env_def big_payload_def run_defs)
  have comp: "compressed (new_entry big_env 0 ''k'' big_payload L3_DISK (FragmentCache_new Config_default Map.empty))"
    by (simp add: new_entry_def FragmentCache_new_def Config_default_def big_payload_def Let_def)
  have fl: "files oversize_cache (GetFilePath big_env oversize_cache ''k'') = Some [42]"
    by (simp add: oversize_cache_def big_env_def big_payload_def run_defs)
  have orig: "inflate big_env [42] = Some big_payload"
    by (simp add: big_env_def)
  have big: "length big_payload > 10 * 1024 * 1024"
    by (simp add: big_payload_def)
  show ?thesis
    using C8_oversize_entry_comes_back_compressed[OF n e comp fl orig big, of 1 "[]"] big by simp
qed

text \<open>
  C8 as the specification states it (for every such slow-tier entry) fails when the key
  also has an entry in a faster tier: the slow tier holds \<open>k\<close> compressed, the original
  being longer than 10 MiB, but the fast tier holds \<open>k\<close> with the payload 1, and Get
  returns that payload, not the compressed bytes.
\<close>

theorem C8_faster_copy_counterexample:
  "map_option compressed (map_of (l3_cache stale_oversize_cache) ''k'') = Some True
   \<and> files stale_oversize_cache (GetFilePath big_env stale_oversize_cache ''k'') = Some [42]
   \<and> inflate big_env [42] = Some big_payload
   \<and> length big_payload > 10 * 1024 * 1024
   \<and> fst (Get big_env 2 ''k'' [] stale_oversize_cache)
   \<and> fst (snd (Get big_env 2 ''k'' [] stale_oversize_cache)) = [1]
   \<and> fst (snd (Get big_env 2 ''k'' [] stale_oversize_cache)) \<noteq> [42]"
  by (simp add: stale_oversize_cache_def stale_cache_def big_env_def big_payload_def run_defs)

subsection \<open>Remove and the background sweep\<close>

lemma LRU_Remove_removeAll: "LRU_Remove k l = removeAll k l"
  by (simp add: LRU_Remove_def)

lemma map_of_None_delete: "map_of al k = None \<Longrightarrow> AList.delete k al = al"
  by (simp add: map_of_eq_None_iff)

lemma Remove_l1_fields:
  "l1_cache (snd (Remove_l1 k s)) = AList.delete k (l1_cache s)"
  "l1_lru (snd (Remove_l1 k s)) = (if map_of (l1_cache s) k = None then l1_lru s else removeAll k (l1_lru s))"
  "l2_cache (snd (Remove_l1 k s)) = l2_cache s" "l2_lru (snd (Remove_l1 k s)) = l2_lru s"
  "l3_cache (snd (Remove_l1 k s)) = l3_cache s" "l3_lru (snd (Remove_l1 k s)) = l3_lru s"
  "config (snd (Remove_l1 k s)) = config s"
  by (simp_all add: Remove_l1_def LRU_Remove_removeAll map_of_None_delete split: option.split)

lemma Remove_l2_fields:
  "l2_cache (snd (Remove_l2 k s)) = AList.delete k (l2_cache s)"
  "l2_lru (snd (Remove_l2 k s)) = (if map_of (l2_cache s) k = None then l2_lru s else removeAll k (l2_lru s))"
  "l1_cache (snd (Remove_l2 k s)) = l1_cache s" "l1_lru (snd (Remove_l2 k s)) = l1_lru s"
  "l3_cache (snd (Remove_l2 k s)) = l3_cache s" "l3_lru (snd (Remove_l2 k s)) = l3_lru s"
  "config (snd (Remove_l2 k s)) = config s"
  by (simp_all add: Remove_l2_def LRU_Remove_removeAll map_of_None_delete split: option.split)

lemma Remove_l3_fields:
  "l3_cache (snd (Remove_l3 E k s)) = AList.delete k (l3_cache s)"
  "l3_lru (snd (Remove_l3 E k s)) = (if map_of (l3_cache s) k = None then l3_lru s else removeAll k (l3_lru s))"
  "l1_cache (snd (Remove_l3 E k s)) = l1_cache s" "l1_lru (snd (Remove_l3 E k s)) = l1_lru s"
  "l2_cache (snd (Remove_l3 E k s)) = l2_cache s" "l2_lru (snd (Remove_l3 E k s)) = l2_lru s"
  "config (snd (Remove_l3 E k s)) = config s"
  by (simp_all add: Remove_l3_def LRU_Remove_removeAll map_of_None_delete split: option.split)

lemma Remove_state:
  "\<exists>st. snd (Remove E k s) = (snd (Remove_l3 E k (snd (Remove_l2 k (snd (Remove_l1 k s))))))\<lparr> stats := st \<rparr>"
proof (cases "fst (Remove_l1 k s) \<or> fst (Remove_l2 k (snd (Remove_l1 k s)))
                \<or> fst (Remove_l3 E k (snd (Remove_l2 k (snd (Remove_l1 k s)))))")
  case True
  then show ?thesis
    by (simp add: Remove_def Let_def split_beta del: split_paired_Ex) blast
next
  case False
  have "snd (Remove E k s) = (snd (Remove_l3 E k (snd (Remove_l2 k (snd (Remove_l1 k s))))))
          \<lparr> stats := stats (snd (Remove_l3 E k (snd (Remove_l2 k (snd (Remove_l1 k s)))))) \<rparr>"
    using False by (simp add: Remove_def Let_def split_beta)
  then show ?thesis by blast
qed

lemma Remove_maps:
  "l1_cache (snd (Remove E k s)) = AList.delete k (l1_cache s)"
  "l2_cache (snd (Remove E k s)) = AList.delete k (l2_cache s)"
  "l3_cache (snd (Remove E k s)) = AList.delete k (l3_cache s)"
  "config (snd (Remove E k s)) = config s"
  using Remove_state[of E k s]
  by (auto simp: Remove_l1_fields Remove_l2_fields Remove_l3_fields)

lemma Remove_lrus:
  "l1_lru (snd (Remove E k s)) = (if map_of (l1_cache s) k = None then l1_lru s else removeAll k (l1_lru s))"
  "l2_lru (snd (Remove E k s)) = (if map_of (l2_cache s) k = None then l2_lru s else removeAll k (l2_lru s))"
  "l3_lru (snd (Remove E k s)) = (if map_of (l3_cache s) k = None then l3_lru s else removeAll k (l3_lru s))"
  using Remove_state[of E k s]
  by (auto simp: Remove_l1_fields Remove_l2_fields Remove_l3_fields)

lemma delete_filter: "AList.delete k al = filter (\<lambda>p. fst p \<noteq> k) al"
  by (induction al) auto

lemma removeAll_filter: "removeAll k l = filter (\<lambda>x. x \<noteq> k) l"
  by (induction l) auto

lemma keys_delete: "fst ` set (AList.delete k al) = fst ` set al - {k}"
  by (auto simp: delete_filter)

text \<open>
  Erasing a list of keys from one tier, one after the other: \<open>c\<close> reads the tier's map,
  \<open>l\<close> its recency index, and \<open>R\<close> erases one key.
\<close>

lemma fold_erase_tier:
  fixes c :: "'s \<Rightarrow> tier" and l :: "'s \<Rightarrow> LRUCache" and R :: "string \<Rightarrow> 's \<Rightarrow> 's"
  assumes c: "\<And>k s. c (R k s) = AList.delete k (c s)"
    and l: "\<And>k s. l (R k s) = (if map_of (c s) k = None then l s else removeAll k (l s))"
  shows "c (fold R ks s) = filter (\<lambda>p. fst p \<notin> set ks) (c s)
         \<and> l (fold R ks s) = filter (\<lambda>x. \<not> (x \<in> set ks \<and> x \<in> fst ` set (c s))) (l s)"
proof (induction ks arbitrary: s)
  case Nil
  show ?case by simp
next
  case (Cons k ks)
  have cs: "c (fold R (k # ks) s) = filter (\<lambda>p. fst p \<notin> set (k # ks)) (c s)"
  proof -
    have "c (fold R (k # ks) s) = filter (\<lambda>p. fst p \<notin> set ks) (filter (\<lambda>p. fst p \<noteq> k) (c s))"
      using Cons.IH[of "R k s"] by (simp add: c delete_filter)
    also have "\<dots> = filter (\<lambda>p. fst p \<notin> set (k # ks)) (c s)"
      by (simp add: conj_commute)
    finally show ?thesis .
  qed
  have ls: "l (fold R (k # ks) s) = filter (\<lambda>x. \<not> (x \<in> set (k # ks) \<and> x \<in> fst ` set (c s))) (l s)"
  proof (cases "map_of (c s) k = None")
    case True
    then have nk: "k \<notin> fst ` set (c s)" by (simp add: map_of_eq_None_iff)
    have "l (fold R (k # ks) s)
            = filter (\<lambda>x. \<not> (x \<in> set ks \<and> x \<in> fst ` set (c s) - {k})) (l s)"
      using Cons.IH[of "R k s"] True by (simp add: c l keys_delete)
    also have "\<dots> = filter (\<lambda>x. \<not> (x \<in> set (k # ks) \<and> x \<in> fst ` set (c s))) (l s)"
      using nk by (intro filter_cong) auto
    finally show ?thesis .
  next
    case False
    then have ik: "k \<in> fst ` set (c s)" by (simp add: map_of_eq_None_iff)
    have "l (fold R (k # ks) s)
            = filter (\<lambda>x. \<not> (x \<in> set ks \<and> x \<in> fst ` set (c s) - {k})) (filter (\<lambda>x. x \<noteq> k) (l s))"
      using Cons.IH[of "R k s"] False by (simp add: c l keys_delete removeAll_filter)
    also have "\<dots> = filter (\<lambda>x. \<not> (x \<in> set (k # ks) \<and> x \<in> fst ` set (c s))) (l s)"
      unfolding filter_filter using ik by (intro filter_cong) auto
    finally show ?thesis .
  qed
  from cs ls show ?case by simp
qed

lemma expired_keys_set:
  "set (expired_keys now s)
     = {k. \<exists>e. ((k, e) \<in> set (l2_cache s) \<or> (k, e) \<in> set (l3_cache s)) \<and> IsExpired now s e}"
  by (auto simp: expired_keys_def) force+


text \<open>
  C6, as the code has it. One sweep at time \<open>now\<close> collects the keys that have, in the
  medium or in the slow map, an entry whose age exceeds \<open>max_age\<close>, and calls Remove on
  each. Afterwards every map, the fast one included, has lost exactly its entries under
  the collected keys, and every recency index has lost exactly the collected keys that
  its map held. The fast tier is exempt from the scan only.
\<close>

theorem C6_sweep_removes_expired_keys_everywhere:
  "set (expired_keys now s)
     = {k. \<exists>e. ((k, e) \<in> set (l2_cache s) \<or> (k, e) \<in> set (l3_cache s)) \<and> IsExpired now s e}
   \<and> l1_cache (CleanupExpired E now s) = filter (\<lambda>p. fst p \<notin> set (expired_keys now s)) (l1_cache s)
   \<and> l2_cache (CleanupExpired E now s) = filter (\<lambda>p. fst p \<notin> set (expired_keys now s)) (l2_cache s)
   \<and> l3_cache (CleanupExpired E now s) = filter (\<lambda>p. fst p \<notin> set (expired_keys now s)) (l3_cache s)
   \<and> l1_lru (CleanupExpired E now s)
       = filter (\<lambda>k. \<not> (k \<in> set (expired_keys now s) \<and> k \<in> fst ` set (l1_cache s))) (l1_lru s)
   \<and> l2_lru (CleanupExpired E now s)
       = filter (\<lambda>k. \<not> (k \<in> set (expired_keys now s) \<and> k \<in> fst ` set (l2_cache s))) (l2_lru s)
   \<and> l3_lru (CleanupExpired E now s)
       = filter (\<lambda>k. \<not> (k \<in> set (expired_keys now s) \<and> k \<in> fst ` set (l3_cache s))) (l3_lru s)"
  using fold_erase_tier[of l1_cache "\<lambda>k s'. snd (Remove E k s')" l1_lru "expired_keys now s" s]
    fold_erase_tier[of l2_cache "\<lambda>k s'. snd (Remove E k s')" l2_lru "expired_keys now s" s]
    fold_erase_tier[of l3_cache "\<lambda>k s'. snd (Remove E k s')" l3_lru "expired_keys now s" s]
    expired_keys_set[of now s]
  unfolding CleanupExpired_def by (simp add: Remove_maps Remove_lrus)

text \<open>The sweep theorem at the cache whose medium-tier copy of \<open>a\<close> has expired.\<close>

theorem C6_sweep_removes_expired_keys_everywhere_witness:
  "expired_keys 4000000000000 promoted_cache = [''a'']
   \<and> map fst (l1_cache promoted_cache) = [''a'']
   \<and> l1_cache (CleanupExpired toy_env 4000000000000 promoted_cache) = []
   \<and> l2_cache (CleanupExpired toy_env 4000000000000 promoted_cache) = []
   \<and> l1_lru (CleanupExpired toy_env 4000000000000 promoted_cache) = []
   \<and> l2_lru (CleanupExpired toy_env 4000000000000 promoted_cache) = []"
proof -
  have ek: "expired_keys 4000000000000 promoted_cache = [''a'']"
    by (simp add: promoted_cache_def one_entry_cache_def run_defs)
  have ks: "map fst (l1_cache promoted_cache) = [''a'']" "map fst (l2_cache promoted_cache) = [''a'']"
    "l1_lru promoted_cache = [''a'']" "l2_lru promoted_cache = [''a'']"
    by (simp_all add: promoted_cache_def one_entry_cache_def run_defs)
  have f: "filter (\<lambda>p. fst p \<noteq> ''a'') t = []" if "map fst t = [''a'']" for t :: tier
    using that by (cases t) auto
  have i: "''a'' \<in> fst ` set t" if "map fst t = [''a'']" for t :: tier
    using that by (cases t) auto
  from C6_sweep_removes_expired_keys_everywhere[of 4000000000000 promoted_cache toy_env]
  show ?thesis
    unfolding ek using ks f[OF ks(1)] f[OF ks(2)] i[OF ks(1)] i[OF ks(2)] by simp
qed

text \<open>
  C6 as the specification states it (no entry of the fast tier is removed by the sweep)
  fails: the key \<open>a\<close> was read from the fast tier at the very moment of the sweep, its
  fast-tier entry is not expired, and the sweep removes it from the fast map and index,
  because the copy left in the medium tier has expired.
\<close>

theorem C6_fast_tier_counterexample:
  "map_option last_access (map_of (l1_cache promoted_cache) ''a'') = Some 4000000000000
   \<and> map_option (IsExpired 4000000000000 promoted_cache) (map_of (l1_cache promoted_cache) ''a'') = Some False
   \<and> map_of (l1_cache (CleanupExpired toy_env 4000000000000 promoted_cache)) ''a'' = None
   \<and> l1_lru promoted_cache = [''a'']
   \<and> l1_lru (CleanupExpired toy_env 4000000000000 promoted_cache) = []"
  by (simp add: promoted_cache_def one_entry_cache_def run_defs)

subsection \<open>A write to the disk that fails\<close>

text \<open>
  C4 fails on the code. The key \<open>k\<close> is in the slow tier with the payload 1, 2, 3; a
  second Put of \<open>k\<close> to the slow tier cannot open the file. It returns false, and the
  cache it leaves is the one before with the slow tier's map and index emptied: the
  earlier entry is lost, while \<open>total_size\<close> and \<open>entry_count\<close> still count it.
\<close>

theorem C4_failed_write_drops_previous_entry:
  "map_option data (map_of (l3_cache slow_only_cache) ''k'') = Some [1, 2, 3]
   \<and> l3_lru slow_only_cache = [''k'']
   \<and> Put failing_env 1 ''k'' [4, 5] L3_DISK slow_only_cache
       = Some (False, slow_only_cache\<lparr> l3_cache := [], l3_lru := [] \<rparr>)"
  by (simp add: slow_only_cache_def failing_env_def run_defs)

text \<open>When the key is new to the slow tier, the failed write does leave the cache as it was.\<close>

lemma PutToLevel_failure_new_key:
  assumes "map_of (l3_cache s) k = None" and "k \<notin> set (l3_lru s)"
    and "PutToLevel E now k d L3_DISK s = (False, s')"
  shows "l3_cache s' = l3_cache s \<and> l3_lru s' = l3_lru s \<and> stats s' = stats s
         \<and> l1_cache s' = l1_cache s \<and> l2_cache s' = l2_cache s
         \<and> l1_lru s' = l1_lru s \<and> l2_lru s' = l2_lru s"
  using assms
  by (auto simp: PutToLevel_def SaveToFile_def Let_def delete_update_same map_of_None_delete
      LRU_Remove_def Access_def split: disk_fault.splits)

subsection \<open>Put and the caps\<close>

lemma sum_sizes_delete: "sum_sizes (AList.delete k t) \<le> sum_sizes t"
  by (induction t) (auto simp: sum_sizes_def)

lemma sum_sizes_update: "sum_sizes (AList.update k e t) \<le> sum_sizes t + size_e e"
  by (induction t) (auto simp: sum_sizes_def)

lemma GetCurrentSize_level_cache: "GetCurrentSize lv s = sum_sizes (level_cache lv s)"
  by (cases lv) (simp_all add: GetCurrentSize_def level_cache_def)

lemma level_cache_Remove: "level_cache lv (snd (Remove E k s)) = AList.delete k (level_cache lv s)"
  by (cases lv) (simp_all add: level_cache_def Remove_maps)

lemma EvictLRU_frame:
  "GetCurrentSize lv' (EvictLRU E lv s) \<le> GetCurrentSize lv' s \<and> config (EvictLRU E lv s) = config s"
  by (simp add: EvictLRU_def Let_def GetCurrentSize_level_cache level_cache_Remove Remove_maps
      sum_sizes_delete level_cache_def split: CacheLevel.split)

lemma evict_while_needed_result:
  assumes r: "evict_while_needed E lv s = Some s1"
  shows "\<not> NeedEviction lv s1 \<and> GetCurrentSize lv' s1 \<le> GetCurrentSize lv' s \<and> config s1 = config s"
proof (rule evict_while_needed.raw_induct[OF _ r])
  fix f :: "env \<Rightarrow> CacheLevel \<Rightarrow> FragmentCache \<Rightarrow> FragmentCache option"
  fix E lv s y
  assume IH: "\<And>E lv s y. f E lv s = Some y \<Longrightarrow>
                 \<not> NeedEviction lv y \<and> GetCurrentSize lv' y \<le> GetCurrentSize lv' s \<and> config y = config s"
    and step: "(if NeedEviction lv s then f E lv (EvictLRU E lv s) else Some s) = Some y"
  show "\<not> NeedEviction lv y \<and> GetCurrentSize lv' y \<le> GetCurrentSize lv' s \<and> config y = config s"
  proof (cases "NeedEviction lv s")
    case True
    with step have "f E lv (EvictLRU E lv s) = Some y" by simp
    from IH[OF this] EvictLRU_frame[of lv' E lv s] show ?thesis by auto
  next
    case False
    with step show ?thesis by simp
  qed
qed

text \<open>
  The loop does not end in a state that needs eviction and that EvictLRU leaves as it is
  (an empty index, or the empty string as its last key).
\<close>

lemma evict_while_needed_stuck:
  assumes need: "NeedEviction lv s" and same: "EvictLRU E lv s = s"
  shows "evict_while_needed E lv s = None"
proof (rule ccontr)
  assume "evict_while_needed E lv s \<noteq> None"
  then obtain y where r: "evict_while_needed E lv s = Some y" by auto
  have "\<not> (NeedEviction lv s \<and> EvictLRU E lv s = s)"
  proof (rule evict_while_needed.raw_induct[OF _ r])
    fix f :: "env \<Rightarrow> CacheLevel \<Rightarrow> FragmentCache \<Rightarrow> FragmentCache option"
    fix E lv s y
    assume IH: "\<And>E lv s y. f E lv s = Some y \<Longrightarrow> \<not> (NeedEviction lv s \<and> EvictLRU E lv s = s)"
      and step: "(if NeedEviction lv s then f E lv (EvictLRU E lv s) else Some s) = Some y"
    show "\<not> (NeedEviction lv s \<and> EvictLRU E lv s = s)"
    proof
      assume a: "NeedEviction lv s \<and> EvictLRU E lv s = s"
      with step have "f E lv s = Some y" by simp
      from IH[OF this] a show False by simp
    qed
  qed
  with need same show False by simp
qed

text \<open>So a Put of an empty payload to an empty medium tier of capacity 0 never returns.\<close>

lemma Put_never_returns:
  "Put E now k [] L2_RAM (FragmentCache_new (Config_default\<lparr> max_l2_size := 0 \<rparr>) fs) = None"
proof -
  have "evict_while_needed E L2_RAM (FragmentCache_new (Config_default\<lparr> max_l2_size := 0 \<rparr>) fs) = None"
    by (rule evict_while_needed_stuck)
       (simp_all add: NeedEviction_def GetCurrentSize_def sum_sizes_def FragmentCache_new_def
          EvictLRU_def GetLRU_def)
  then show ?thesis
    by (simp add: Put_def target_level_def GetCurrentSize_def sum_sizes_def FragmentCache_new_def)
qed

lemma target_level_fits:
  "target_level d pref s \<noteq> L3_DISK \<Longrightarrow>
     GetCurrentSize (target_level d pref s) s + length d \<le> level_cap (target_level d pref s) (config s)"
  by (cases pref) (auto simp: target_level_def level_cap_def Let_def split: if_splits)

lemma PutToLevel_size:
  "lv \<noteq> L3_DISK \<Longrightarrow>
     GetCurrentSize lv (snd (PutToLevel E now k d lv s)) \<le> GetCurrentSize lv s + length d
     \<and> config (snd (PutToLevel E now k d lv s)) = config s"
  using sum_sizes_update[of k "new_entry E now k d lv s"]
  by (cases lv) (auto simp: PutToLevel_def GetCurrentSize_def Let_def new_entry_def)

lemma NeedEviction_level_cap:
  "NeedEviction lv s = (9 * level_cap lv (config s) \<le> 10 * GetCurrentSize lv s)"
  by (cases lv) (simp_all add: NeedEviction_def level_cap_def Let_def)

text \<open>
  C2, as the code has it. When a Put returns, its eviction loop has ended in a state in
  which the target tier is below 90 percent of its cap, and the entry was written to
  that state. If the target tier is the fast or the medium one, its total after the Put
  is at most its cap (the cap itself can be reached). Nothing bounds the total of the
  slow tier.
\<close>

theorem C2_put_leaves_tier_within_cap:
  assumes put: "Put E now k d pref s = Some (ok, s')"
  shows "(\<exists>s1. evict_while_needed E (target_level d pref s) s = Some s1
               \<and> 10 * GetCurrentSize (target_level d pref s) s1
                   < 9 * level_cap (target_level d pref s) (config s)
               \<and> PutToLevel E now k d (target_level d pref s) s1 = (ok, s'))
         \<and> (target_level d pref s \<noteq> L3_DISK \<longrightarrow>
               GetCurrentSize (target_level d pref s) s' \<le> level_cap (target_level d pref s) (config s'))"
proof -
  define t where "t = target_level d pref s"
  from put obtain s1 where ev: "evict_while_needed E t s = Some s1"
    and p: "PutToLevel E now k d t s1 = (ok, s')"
    by (auto simp: Put_def Let_def t_def split: option.splits)
  from evict_while_needed_result[OF ev, of t]
  have ne: "\<not> NeedEviction t s1" and le: "GetCurrentSize t s1 \<le> GetCurrentSize t s"
    and cf: "config s1 = config s" by auto
  from ne cf have under: "10 * GetCurrentSize t s1 < 9 * level_cap t (config s)"
    by (simp add: NeedEviction_level_cap)
  have bound: "GetCurrentSize t s' \<le> level_cap t (config s')" if "t \<noteq> L3_DISK"
  proof -
    from PutToLevel_size[OF that, of E now k d s1] p
    have "GetCurrentSize t s' \<le> GetCurrentSize t s1 + length d" and "config s' = config s1" by auto
    with le cf target_level_fits[of d pref s] that show ?thesis by (simp add: t_def)
  qed
  have A: "\<exists>s1. evict_while_needed E t s = Some s1
               \<and> 10 * GetCurrentSize t s1 < 9 * level_cap t (config s)
               \<and> PutToLevel E now k d t s1 = (ok, s')"
    using ev under p by (intro exI[of _ s1]) simp
  show ?thesis unfolding t_def[symmetric] using A bound by simp
qed



text \<open>The theorem at a Put that has to evict: a fast tier of 10 bytes that holds 9.\<close>

theorem C2_put_leaves_tier_within_cap_witness:
  "NeedEviction L1_GPU nearly_full_cache
   \<and> Put toy_env 1 ''b'' [2] L1_GPU nearly_full_cache \<noteq> None
   \<and> target_level [2] L1_GPU nearly_full_cache = L1_GPU
   \<and> GetCurrentSize L1_GPU (snd (the (Put toy_env 1 ''b'' [2] L1_GPU nearly_full_cache))) \<le> 10"
proof -
  have t: "target_level [2] L1_GPU nearly_full_cache = L1_GPU"
    by (simp add: nearly_full_cache_def run_defs)
  have ne: "NeedEviction L1_GPU nearly_full_cache"
    by (simp add: nearly_full_cache_def run_defs)
  have nn: "Put toy_env 1 ''b'' [2] L1_GPU nearly_full_cache \<noteq> None"
    by (simp add: nearly_full_cache_def run_defs)
  then have put: "Put toy_env 1 ''b'' [2] L1_GPU nearly_full_cache
               = Some (fst (the (Put toy_env 1 ''b'' [2] L1_GPU nearly_full_cache)),
                       snd (the (Put toy_env 1 ''b'' [2] L1_GPU nearly_full_cache)))"
    by simp
  have cap: "level_cap L1_GPU (config (snd (the (Put toy_env 1 ''b'' [2] L1_GPU nearly_full_cache)))) = 10"
    by (simp add: nearly_full_cache_def run_defs)
  have "GetCurrentSize L1_GPU (snd (the (Put toy_env 1 ''b'' [2] L1_GPU nearly_full_cache))) \<le> 10"
    using C2_put_leaves_tier_within_cap[OF put] t cap by simp
  with t ne nn show ?thesis by simp
qed


text \<open>
  C2 as the specification states it (strictly below the cap after every Put) fails twice:
  a Put of 10 bytes fills an empty fast tier of 10 bytes to its cap, and a Put of 50
  bytes to an empty slow tier of 10 bytes is stored whole.
\<close>

theorem C2_strictly_below_cap_counterexample:
  "Put toy_env 0 ''a'' (replicate 10 1) L1_GPU (FragmentCache_new small_config Map.empty) \<noteq> None
   \<and> target_level (replicate 10 1) L1_GPU (FragmentCache_new small_config Map.empty) = L1_GPU
   \<and> GetCurrentSize L1_GPU exact_fill_cache = 10
   \<and> max_l1_size (config exact_fill_cache) = 10
   \<and> Put toy_env 0 ''a'' (replicate 50 1) L3_DISK (FragmentCache_new small_config Map.empty) \<noteq> None
   \<and> target_level (replicate 50 1) L3_DISK (FragmentCache_new small_config Map.empty) = L3_DISK
   \<and> GetCurrentSize L3_DISK slow_overflow_cache = 50
   \<and> max_l3_size (config slow_overflow_cache) = 10"
  by (simp add: exact_fill_cache_def slow_overflow_cache_def run_defs)

subsection \<open>Put followed by Get\<close>







end
